theory Spec2Isabelle
  imports Main "HOL-Library.Sublist"
begin

section \<open>JavaScript strings\<close>

text \<open>
  A JavaScript string is modelled by the list of the bytes of its UTF-8 encoding, so an
  ASCII character is one \<^typ>\<open>char\<close> and the few non-ASCII literals of the source are
  written byte by byte, exactly as they stand in the source files. On well-formed text
  \<open>includes\<close>, \<open>startsWith\<close>, \<open>split\<close> and \<open>join\<close> agree on bytes and on code units.
  \<open>toLowerCase\<close> and \<open>trim\<close> are modelled on the ASCII range: the letters \<open>A\<close> to \<open>Z\<close>
  are lowered, the characters tab, line feed, vertical tab, form feed, carriage return
  and space are white space, and every other byte is left alone.
\<close>

definition isUpper :: "char \<Rightarrow> bool" where
  "isUpper c = (65 \<le> (of_char c :: nat) \<and> (of_char c :: nat) \<le> 90)"

definition toLowerChar :: "char \<Rightarrow> char" where
  "toLowerChar c = (if isUpper c then char_of ((of_char c :: nat) + 32) else c)"

definition toLowerCase :: "string \<Rightarrow> string" where
  "toLowerCase s = map toLowerChar s"

text \<open>The character class \<open>\d\<close> of a regular expression.\<close>

definition isDigit :: "char \<Rightarrow> bool" where
  "isDigit c = (48 \<le> (of_char c :: nat) \<and> (of_char c :: nat) \<le> 57)"

definition isSpace :: "char \<Rightarrow> bool" where
  "isSpace c = ((9 \<le> (of_char c :: nat) \<and> (of_char c :: nat) \<le> 13) \<or> (of_char c :: nat) = 32)"

definition trim :: "string \<Rightarrow> string" where
  "trim s = rev (dropWhile isSpace (rev (dropWhile isSpace s)))"

definition startsWith :: "string \<Rightarrow> string \<Rightarrow> bool" where
  "startsWith s p = prefix p s"

text \<open>\<open>s.includes(p)\<close>: the pattern starts at some position of the string.\<close>

primrec "includes" :: "string \<Rightarrow> string \<Rightarrow> bool" where
  "includes [] p = (p = [])"
| "includes (c # cs) p = (prefix p (c # cs) \<or> includes cs p)"

text \<open>
  \<open>s.split(sep)\<close> for a separator of one character. The result is never empty: the empty
  string splits into one empty piece.
\<close>

fun split :: "char \<Rightarrow> string \<Rightarrow> string list" where
  "split sep [] = [[]]"
| "split sep (c # cs) =
     (if c = sep then [] # split sep cs
      else (case split sep cs of [] \<Rightarrow> [[c]] | piece # pieces \<Rightarrow> (c # piece) # pieces))"

fun join :: "string \<Rightarrow> string list \<Rightarrow> string" where
  "join sep [] = []"
| "join sep [piece] = piece"
| "join sep (piece # next # pieces) = piece @ sep @ join sep (next # pieces)"

text \<open>\<open>String(n)\<close> for a non-negative integer: its decimal digits.\<close>

fun String_number :: "nat \<Rightarrow> string" where
  "String_number n =
     (if n < 10 then [''0123456789'' ! n]
      else String_number (n div 10) @ [''0123456789'' ! (n mod 10)])"

declare String_number.simps [simp del]

text \<open>
  \<open>line.match(/^\d+\./)\<close>: one or more digits at the start of the line, then a period.
  The digits are matched greedily and a digit is not a period, so the line matches iff
  its longest run of leading digits is not empty and a period follows it.
\<close>

definition matchNumbered :: "string \<Rightarrow> bool" where
  "matchNumbered line =
     (takeWhile isDigit line \<noteq> [] \<and>
      (case dropWhile isDigit line of [] \<Rightarrow> False | c # _ \<Rightarrow> c = CHR ''.''))"

section \<open>Messages\<close>

text \<open>The type \<open>'user' | 'bot'\<close> of the field \<open>type\<close> of a message.\<close>

datatype MessageType = User | Bot

text \<open>
  The interface \<open>Message\<close> of \<open>types/index.ts\<close>. The code checks
  \<open>typeof message.content === 'string'\<close> before it reads the content, so the content is
  optional here: \<open>None\<close> is a body that is missing or not a string.
\<close>

record Message =
  type :: MessageType
  content :: "string option"
  timestamp :: int

record Option =
  display :: string
  "value" :: string

section \<open>What the card and the input utility share\<close>

definition safeContent :: "Message \<Rightarrow> string" where
  "safeContent message = (case content message of Some s \<Rightarrow> s | None \<Rightarrow> [])"

definition lines :: "Message \<Rightarrow> string list" where
  "lines message = split CHR 0x0A (safeContent message)"

definition options :: "Message \<Rightarrow> string list" where
  "options message = filter matchNumbered (lines message)"

text \<open>
  \<open>lines[0]?.toLowerCase().includes('found') && lines[0]?.toLowerCase().includes('match')\<close>:
  a missing first line makes the test false.
\<close>

definition isEmployeeSelection :: "Message \<Rightarrow> bool" where
  "isEmployeeSelection message =
     (case lines message of
        [] \<Rightarrow> False
      | line0 # _ \<Rightarrow>
          includes (toLowerCase line0) ''found'' \<and> includes (toLowerCase line0) ''match'')"

section \<open>The input utility: \<open>utils/chat.ts\<close>\<close>

text \<open>
  When the first line announces matches the prompt is that line. The lines are never
  empty, so the branch for a missing first line is never taken.
\<close>

definition prompt_chat :: "Message \<Rightarrow> string" where
  "prompt_chat message =
     (if isEmployeeSelection message
      then (case lines message of line0 # _ \<Rightarrow> line0 | [] \<Rightarrow> [])
      else join '' ''
             (filter (\<lambda>line. \<not> matchNumbered line \<and> trim line \<noteq> []) (lines message)))"

definition isConfirmation_chat :: "Message \<Rightarrow> bool" where
  "isConfirmation_chat message =
     (let prompt = prompt_chat message in
        (includes (toLowerCase prompt) ''confirm'' \<and> includes (toLowerCase prompt) ''edit'') \<or>
        (includes prompt ''[confirm]'' \<and> includes prompt ''[edit]'') \<or>
        (includes (toLowerCase prompt) ''confirm'' \<and>
           (includes (toLowerCase prompt) ''final check'' \<or>
            includes (toLowerCase prompt) ''please review'')))"

definition isCompletionMessage_chat :: "Message \<Rightarrow> bool" where
  "isCompletionMessage_chat message =
     includes (toLowerCase (safeContent message)) ''registration is complete''"

definition fieldKeywords :: "Message \<Rightarrow> bool" where
  "fieldKeywords message =
     (let text = toLowerCase (safeContent message) in
        includes text ''cnic'' \<or>
        includes text ''phone'' \<or>
        includes text ''mobile number'' \<or>
        includes text ''mobile no'' \<or>
        includes text ''phone number'' \<or>
        includes text ''phone no'' \<or>
        includes text ''mobile'' \<or>
        includes text ''name'' \<or>
        includes text ''host'' \<or>
        includes text ''host name'' \<or>
        includes text ''purpose'' \<or>
        (includes text ''enter'' \<and> \<not> includes text ''none of these''))"

text \<open>
  \<open>shouldShowInputField(message)\<close>. The argument is optional because the function begins
  with \<open>if (!message || message.type !== 'bot') return false\<close>.
\<close>

definition shouldShowInputField :: "Message option \<Rightarrow> bool" where
  "shouldShowInputField arg =
     (case arg of
        None \<Rightarrow> False
      | Some message \<Rightarrow>
          if type message \<noteq> Bot then False
          else fieldKeywords message \<and> length (options message) = 0 \<and>
               \<not> isEmployeeSelection message \<and> \<not> isConfirmation_chat message \<and>
               \<not> isCompletionMessage_chat message)"

section \<open>The card: \<open>components/CardQuestion.tsx\<close>\<close>

definition isCompletionMessage :: "Message \<Rightarrow> bool" where
  "isCompletionMessage message =
     (type message = Bot \<and>
      (includes (toLowerCase (safeContent message)) ''registration is complete'' \<or>
       includes (toLowerCase (safeContent message)) ''registration successful'' \<or>
       includes (toLowerCase (safeContent message)) ''start new registration'' \<or>
       includes (toLowerCase (safeContent message))
         ''please come back within 30 minutes before your scheduled time''))"

text \<open>
  The employee names are numbered by a counter that starts at 1 and is incremented by
  each name: \<open>value: String(counter++)\<close>.
\<close>

fun numberNames :: "nat \<Rightarrow> string list \<Rightarrow> Option list" where
  "numberNames counter [] = []"
| "numberNames counter (name # names) =
     \<lparr>display = trim name, value = String_number counter\<rparr> # numberNames (Suc counter) names"

definition employeeNames :: "Message \<Rightarrow> Option list" where
  "employeeNames message =
     (if isEmployeeSelection message
      then numberNames 1
             (filter (\<lambda>line. \<not> includes (toLowerCase line) ''found'' \<and>
                             \<not> includes (toLowerCase line) ''none of these'' \<and>
                             trim line \<noteq> [])
                (lines message))
      else [])"

definition nonEmployeeLines :: "Message \<Rightarrow> Option list" where
  "nonEmployeeLines message =
     (if isEmployeeSelection message
      then [\<lparr>display = ''None of these / Enter a different name'', value = ''0''\<rparr>]
      else [])"

definition isAdminSupportConfirmation :: "Message \<Rightarrow> bool" where
  "isAdminSupportConfirmation message =
     (type message = Bot \<and>
      includes (toLowerCase (safeContent message)) ''admin support team'' \<and>
      includes (toLowerCase (safeContent message)) ''your check-in has been recorded'' \<and>
      includes (toLowerCase (safeContent message)) ''name:'' \<and>
      includes (toLowerCase (safeContent message)) ''cnic:'' \<and>
      includes (toLowerCase (safeContent message)) ''phone:'' \<and>
      includes (toLowerCase (safeContent message)) ''host:'' \<and>
      includes (toLowerCase (safeContent message)) ''service:'')"

definition isConfirmation :: "Message \<Rightarrow> bool" where
  "isConfirmation message =
     (type message = Bot \<and>
      ((includes (toLowerCase (safeContent message)) ''confirm'' \<and>
        includes (toLowerCase (safeContent message)) ''edit'') \<or>
       (includes (safeContent message) ''[confirm]'' \<and>
        includes (safeContent message) ''[edit]'') \<or>
       (includes (toLowerCase (safeContent message)) ''confirm'' \<and>
          (includes (toLowerCase (safeContent message)) ''final check'' \<or>
           includes (toLowerCase (safeContent message)) ''please review'')) \<or>
       isAdminSupportConfirmation message))"

text \<open>
  The test on a line that the source writes twice, in \<open>summaryInfo\<close> and in \<open>prompt\<close>.
\<close>

definition summaryField :: "string \<Rightarrow> bool" where
  "summaryField line =
     (includes (toLowerCase line) ''name:'' \<or>
      includes (toLowerCase line) ''cnic:'' \<or>
      includes (toLowerCase line) ''phone:'' \<or>
      includes (toLowerCase line) ''host:'' \<or>
      includes (toLowerCase line) ''purpose:'' \<or>
      includes (toLowerCase line) ''supplier:'' \<or>
      includes (toLowerCase line) ''email:'' \<or>
      includes (toLowerCase line) ''meeting:'')"

definition summaryInfo :: "Message \<Rightarrow> string list" where
  "summaryInfo message =
     (if isConfirmation message then filter summaryField (lines message) else [])"

text \<open>
  The three markers of the visitor types, as the bytes of the literals in the source
  file.
\<close>

definition markerGuest :: string where
  "markerGuest = [CHR 0xC3, CHR 0xB0, CHR 0xC5, CHR 0xB8, CHR 0xC2, CHR 0xA7]"

definition markerVendor :: string where
  "markerVendor =
     [CHR 0xC3, CHR 0xB0, CHR 0xC5, CHR 0xB8, CHR 0xE2, CHR 0x80, CHR 0x9C, CHR 0xC2, CHR 0xA6]"

definition markerMeeting :: string where
  "markerMeeting =
     [CHR 0xC3, CHR 0xB0, CHR 0xC5, CHR 0xB8, CHR 0xE2, CHR 0x80, CHR 0x9C, CHR 0xE2, CHR 0x80,
      CHR 0xA6]"

definition emojiLine :: "string \<Rightarrow> bool" where
  "emojiLine line =
     (startsWith (trim line) markerGuest \<or>
      startsWith (trim line) markerVendor \<or>
      startsWith (trim line) markerMeeting)"

text \<open>
  The prompt of the card. In the first branch the first line exists, because the test
  for an employee selection has read it.
\<close>

definition promptLines :: "Message \<Rightarrow> string list" where
  "promptLines message =
     filter (\<lambda>line.
        \<not> matchNumbered line \<and>
        \<not> startsWith (trim line) markerGuest \<and>
        \<not> startsWith (trim line) markerVendor \<and>
        \<not> startsWith (trim line) markerMeeting \<and>
        \<not> (isConfirmation message \<and> summaryField line) \<and>
        trim line \<noteq> [])
       (lines message)"

definition prompt :: "Message \<Rightarrow> string" where
  "prompt message =
     (if isEmployeeSelection message
      then (case lines message of line0 # _ \<Rightarrow> line0 | [] \<Rightarrow> [])
      else join '' '' (promptLines message))"

definition emojiOption :: "string \<Rightarrow> Option" where
  "emojiOption line =
     (if includes line ''Guest'' then \<lparr>display = trim line, value = ''guest''\<rparr>
      else if includes line ''Vendor'' then \<lparr>display = trim line, value = ''vendor''\<rparr>
      else if includes line ''Meeting'' then \<lparr>display = trim line, value = ''prescheduled''\<rparr>
      else \<lparr>display = trim line, value = trim line\<rparr>)"

definition emojiOptions :: "Message \<Rightarrow> Option list" where
  "emojiOptions message = map emojiOption (filter emojiLine (lines message))"

text \<open>
  \<open>replace(/[...]/g, "'")\<close> of the greeting test. The class of the source file holds four
  characters: two bytes \<open>C3 A2\<close>, three bytes \<open>E2 82 AC\<close>, three bytes \<open>E2 84 A2\<close>, and the
  apostrophe itself.
\<close>

fun replaceApostrophes :: "string \<Rightarrow> string" where
  "replaceApostrophes (a # b # c # cs) =
     (if [a, b] = [CHR 0xC3, CHR 0xA2] then CHR 0x27 # replaceApostrophes (c # cs)
      else if [a, b, c] = [CHR 0xE2, CHR 0x82, CHR 0xAC] then CHR 0x27 # replaceApostrophes cs
      else if [a, b, c] = [CHR 0xE2, CHR 0x84, CHR 0xA2] then CHR 0x27 # replaceApostrophes cs
      else a # replaceApostrophes (b # c # cs))"
| "replaceApostrophes [a, b] =
     (if [a, b] = [CHR 0xC3, CHR 0xA2] then [CHR 0x27] else a # replaceApostrophes [b])"
| "replaceApostrophes [a] = [a]"
| "replaceApostrophes [] = []"

definition greeting :: string where
  "greeting =
     ''Oh look, another human at the gates of innovation. I'' @ [CHR 0x27] @
     ''m your AI receptionist, not a therapist, so let'' @ [CHR 0x27] @
     ''s keep this short. You are:''"

definition isIntroGreeting :: "Message \<Rightarrow> bool" where
  "isIntroGreeting message = includes (replaceApostrophes (trim (prompt message))) greeting"

text \<open>The dash of the labels below, as the bytes of the source file.\<close>

definition dash :: string where
  "dash = [CHR 0xC3, CHR 0xA2, CHR 0xE2, CHR 0x82, CHR 0xAC, CHR 0xE2, CHR 0x80, CHR 0x9C]"

definition visitorTypeButtons :: "Message \<Rightarrow> Option list" where
  "visitorTypeButtons message =
     (if isIntroGreeting message
      then [\<lparr>display = markerGuest @ '' Guest '' @ dash @ '' here to sip coffee and nod?'',
              value = ''guest''\<rparr>,
            \<lparr>display = markerVendor @ '' Vendor '' @ dash @ '' bless us with cardboard and chaos?'',
              value = ''vendor''\<rparr>,
            \<lparr>display = markerMeeting @ '' Meeting '' @ dash @ '' how official of you.'',
              value = ''prescheduled''\<rparr>,
            \<lparr>display = markerGuest @ [CHR 0xC2, CHR 0xBE] @ '' CV / Interview / Joiner '' @ dash @
                        '' chasing dreams or HR already owns you?'',
              value = ''cv drop / interview / new joiner''\<rparr>,
            \<lparr>display = [CHR 0xC3, CHR 0xB0, CHR 0xC5, CHR 0xB8, CHR 0xE2, CHR 0x80, CHR 0xBA,
                         CHR 0xC2, CHR 0xA0, CHR 0xC3, CHR 0xAF, CHR 0xC2, CHR 0xB8] @
                        '' Admin Support '' @ dash @
                        '' External maintenance personnel reporting in?'',
              value = ''admin support''\<rparr>]
      else [])"

definition cvPrompt :: "Message \<Rightarrow> bool" where
  "cvPrompt message =
     (includes (toLowerCase (prompt message)) ''cv drop'' \<and>
      includes (toLowerCase (prompt message)) ''interview'' \<and>
      includes (toLowerCase (prompt message)) ''new joiner'')"

definition cvFlowButtons :: "Message \<Rightarrow> Option list" where
  "cvFlowButtons message =
     (if cvPrompt message
      then [\<lparr>display = [CHR 0xC3, CHR 0xB0, CHR 0xC5, CHR 0xB8, CHR 0xE2, CHR 0x80, CHR 0x9C,
                         CHR 0xE2, CHR 0x80, CHR 0x9E] @ '' CV Drop'',
              value = ''cv drop''\<rparr>,
            \<lparr>display = [CHR 0xC3, CHR 0xB0, CHR 0xC5, CHR 0xB8, CHR 0xC2, CHR 0xA7, CHR 0xE2,
                         CHR 0x80, CHR 0x98, CHR 0xC3, CHR 0xA2, CHR 0xE2, CHR 0x82, CHR 0xAC,
                         CHR 0xC3, CHR 0xB0, CHR 0xC5, CHR 0xB8, CHR 0xE2, CHR 0x80, CHR 0x99,
                         CHR 0xC2, CHR 0xBC] @ '' Interview'',
              value = ''interview''\<rparr>,
            \<lparr>display = [CHR 0xC3, CHR 0xB0, CHR 0xC5, CHR 0xB8, CHR 0xE2, CHR 0x80, CHR 0x98,
                         CHR 0xC2, CHR 0xA5] @ '' New Joiner'',
              value = ''new joiner''\<rparr>]
      else [])"

definition adminSupportPrompt :: "Message \<Rightarrow> bool" where
  "adminSupportPrompt message =
     (includes (toLowerCase (prompt message)) ''admin support'' \<and>
      includes (toLowerCase (prompt message)) ''who are you here as'')"

definition adminSupportButtons :: "Message \<Rightarrow> Option list" where
  "adminSupportButtons message =
     (if adminSupportPrompt message
      then [\<lparr>display = [CHR 0xC3, CHR 0xB0, CHR 0xC5, CHR 0xB8, CHR 0xE2, CHR 0x80, CHR 0x9D,
                         CHR 0xC2, CHR 0xA7] @ '' Plumber '' @ dash @ '' here to check the pipes?'',
              value = ''plumber''\<rparr>,
            \<lparr>display = [CHR 0xC3, CHR 0xB0, CHR 0xC5, CHR 0xB8, CHR 0xE2, CHR 0x80, CHR 0x99,
                         CHR 0xC2, CHR 0xA1] @ '' Electrician '' @ dash @ '' got wires to fix?'',
              value = ''electrician''\<rparr>,
            \<lparr>display = [CHR 0xC3, CHR 0xB0, CHR 0xC5, CHR 0xB8, CHR 0xE2, CHR 0x80, CHR 0xBA,
                         CHR 0xC2, CHR 0xA0, CHR 0xC3, CHR 0xAF, CHR 0xC2, CHR 0xB8] @
                        '' Carpenter '' @ dash @ '' on-site for repairs?'',
              value = ''carpenter''\<rparr>,
            \<lparr>display = [CHR 0xC3, CHR 0xB0, CHR 0xC5, CHR 0xB8, CHR 0xC5, CHR 0xBD, CHR 0xC2,
                         CHR 0xA8] @ '' Painter '' @ dash @ '' paintwork duty today?'',
              value = ''painter''\<rparr>,
            \<lparr>display = [CHR 0xC3, CHR 0xB0, CHR 0xC5, CHR 0xB8, CHR 0xE2, CHR 0x80, CHR 0x9C] @
                        '' Other '' @ dash @ '' something else?'',
              value = ''other''\<rparr>]
      else [])"

definition showButtons :: "Message \<Rightarrow> bool" where
  "showButtons message =
     (type message = Bot \<and>
      (0 < length (options message) \<or> 0 < length (emojiOptions message) \<or>
       isConfirmation message \<or> isEmployeeSelection message \<or>
       isCompletionMessage message \<or> 0 < length (adminSupportButtons message)))"

text \<open>
  A numbered line becomes a button: \<open>const [num, ...textParts] = option.split('.')\<close>, the
  button sends \<open>num\<close> and shows \<open>textParts.join('.').trim()\<close>.
\<close>

definition numberedButton :: "string \<Rightarrow> Option" where
  "numberedButton option =
     (case split CHR ''.'' option of
        num # textParts \<Rightarrow> \<lparr>display = trim (join ''.'' textParts), value = num\<rparr>
      | [] \<Rightarrow> \<lparr>display = [], value = []\<rparr>)"

subsection \<open>What the card renders\<close>

text \<open>The groups of buttons of the card, in the order of the markup.\<close>

datatype ButtonGroup =
  CompletionButton
| VisitorTypeButtons
| EmployeeSelectionButtons
| NumberedOptions
| EmojiOptions
| CvFlowButtons
| AdminSupportButtons
| ConfirmationButtons

text \<open>
  The condition under which the markup renders each group. The numbered options are
  written \<open>!isEmployeeSelection && options.map(...)\<close>: a list that is mapped to no button
  renders nothing, so the group is on the card only when there is a numbered line.
\<close>

fun groupShown :: "Message \<Rightarrow> ButtonGroup \<Rightarrow> bool" where
  "groupShown message CompletionButton = isCompletionMessage message"
| "groupShown message VisitorTypeButtons = (0 < length (visitorTypeButtons message))"
| "groupShown message EmployeeSelectionButtons = isEmployeeSelection message"
| "groupShown message NumberedOptions =
     (\<not> isEmployeeSelection message \<and> 0 < length (options message))"
| "groupShown message EmojiOptions = (0 < length (emojiOptions message))"
| "groupShown message CvFlowButtons = (0 < length (cvFlowButtons message))"
| "groupShown message AdminSupportButtons = (0 < length (adminSupportButtons message))"
| "groupShown message ConfirmationButtons = isConfirmation message"

text \<open>The buttons of each group, in the order of the markup.\<close>

fun groupButtons :: "Message \<Rightarrow> ButtonGroup \<Rightarrow> Option list" where
  "groupButtons message CompletionButton =
     [\<lparr>display = ''Start New Registration'', value = ''new''\<rparr>]"
| "groupButtons message VisitorTypeButtons = visitorTypeButtons message"
| "groupButtons message EmployeeSelectionButtons =
     employeeNames message @ nonEmployeeLines message"
| "groupButtons message NumberedOptions = map numberedButton (options message)"
| "groupButtons message EmojiOptions = emojiOptions message"
| "groupButtons message CvFlowButtons = cvFlowButtons message"
| "groupButtons message AdminSupportButtons = adminSupportButtons message"
| "groupButtons message ConfirmationButtons =
     [\<lparr>display = ''Confirm'', value = ''confirm''\<rparr>, \<lparr>display = ''Edit'', value = ''edit''\<rparr>]"

definition renderGroup :: "Message \<Rightarrow> ButtonGroup \<Rightarrow> (ButtonGroup \<times> Option list) list" where
  "renderGroup message g =
     (if groupShown message g then [(g, groupButtons message g)] else [])"

text \<open>
  The area of the buttons. It is rendered under the condition
  \<open>showButtons || visitorTypeButtons.length > 0 || cvFlowButtons.length > 0 ||
  adminSupportButtons.length > 0\<close> and holds the groups in the order of the markup.
\<close>

definition buttonArea :: "Message \<Rightarrow> (ButtonGroup \<times> Option list) list" where
  "buttonArea message =
     (if showButtons message \<or> 0 < length (visitorTypeButtons message) \<or>
         0 < length (cvFlowButtons message) \<or> 0 < length (adminSupportButtons message)
      then
        renderGroup message CompletionButton @
        renderGroup message VisitorTypeButtons @
        renderGroup message EmployeeSelectionButtons @
        renderGroup message NumberedOptions @
        renderGroup message EmojiOptions @
        renderGroup message CvFlowButtons @
        renderGroup message AdminSupportButtons @
        renderGroup message ConfirmationButtons
      else [])"

text \<open>
  The card: the heading (hidden for the two flows that replace it by their buttons), the
  block of the summary (rendered when it has a line) and the buttons. An invisible card
  renders nothing.
\<close>

record Card =
  heading :: "string option"
  summaryBlock :: "string list"
  buttons :: "(ButtonGroup \<times> Option list) list"

definition CardQuestion :: "Message \<Rightarrow> bool \<Rightarrow> Card option" where
  "CardQuestion message isVisible =
     (if isVisible
      then Some \<lparr>heading = (if \<not> cvPrompt message \<and> \<not> adminSupportPrompt message
                             then Some (prompt message) else None),
                  summaryBlock = summaryInfo message,
                  buttons = buttonArea message\<rparr>
      else None)"

section \<open>The confirmation detector of the specification\<close>

text \<open>
  This definition follows the words of the specification, not the source: the detector
  holds of a text iff the text contains both \<open>confirm\<close> and \<open>edit\<close>, or the bracket tokens
  \<open>[confirm]\<close> and \<open>[edit]\<close>, or \<open>confirm\<close> and one of \<open>final check\<close> and \<open>please review\<close>.
  The specification applies it to the full lowercased text of the message.
\<close>

definition spec_confirmationDetector :: "string \<Rightarrow> bool" where
  "spec_confirmationDetector text =
     ((includes text ''confirm'' \<and> includes text ''edit'') \<or>
      (includes text ''[confirm]'' \<and> includes text ''[edit]'') \<or>
      (includes text ''confirm'' \<and>
         (includes text ''final check'' \<or> includes text ''please review'')))"

section \<open>Evaluating the character classes\<close>

text \<open>
  The three character functions on the bits of a character, least significant bit first,
  so that the simplifier evaluates them on a literal without arithmetic.
\<close>

lemma toLowerChar_Char [simp]:
  "toLowerChar (Char b0 b1 b2 b3 b4 b5 b6 b7) =
     Char b0 b1 b2 b3 b4
       (b5 \<or> (\<not> b7 \<and> b6 \<and> (b0 \<or> b1 \<or> b2 \<or> b3 \<or> b4) \<and>
              \<not> (b4 \<and> b3 \<and> (b2 \<or> (b1 \<and> b0)))))
       b6 b7"
  by (cases b0; cases b1; cases b2; cases b3; cases b4; cases b5; cases b6; cases b7;
      simp add: toLowerChar_def isUpper_def char_of_def bit_Suc_0_iff)

lemma isDigit_Char [simp]:
  "isDigit (Char b0 b1 b2 b3 b4 b5 b6 b7) =
     (\<not> b7 \<and> \<not> b6 \<and> b5 \<and> b4 \<and> (\<not> b3 \<or> (\<not> b2 \<and> \<not> b1)))"
  by (cases b0; cases b1; cases b2; cases b3; cases b4; cases b5; cases b6; cases b7;
      simp add: isDigit_def)

lemma isSpace_Char [simp]:
  "isSpace (Char b0 b1 b2 b3 b4 b5 b6 b7) =
     (\<not> b7 \<and> \<not> b6 \<and> \<not> b4 \<and>
      ((\<not> b5 \<and> b3 \<and> ((\<not> b2 \<and> (b1 \<or> b0)) \<or> (b2 \<and> \<not> b1))) \<or>
       (b5 \<and> \<not> b3 \<and> \<not> b2 \<and> \<not> b1 \<and> \<not> b0)))"
  by (cases b0; cases b1; cases b2; cases b3; cases b4; cases b5; cases b6; cases b7;
      simp add: isSpace_def)

section \<open>Splitting and joining\<close>

lemma split_not_Nil [simp]: "split sep s \<noteq> []"
  by (induction s) (auto split: list.splits)

lemma join_split: "join [sep] (split sep s) = s"
proof (induction s)
  case Nil
  show ?case by simp
next
  case (Cons c cs)
  obtain piece pieces where pieces: "split sep cs = piece # pieces"
    by (cases "split sep cs") simp_all
  show ?case
  proof (cases "c = sep")
    case True
    with Cons pieces show ?thesis by simp
  next
    case False
    with Cons pieces show ?thesis by (cases pieces) simp_all
  qed
qed

lemma split_prefix_without_sep:
  "sep \<notin> set ds \<Longrightarrow> split sep (ds @ sep # rest) = ds # split sep rest"
  by (induction ds) auto

lemma lines_not_Nil [simp]: "lines message \<noteq> []"
  by (simp add: lines_def)

lemma lines_join: "join [CHR 0x0A] (lines message) = safeContent message"
  by (simp add: lines_def join_split)

lemma toLowerCase_join:
  "toLowerCase (join sep ls) = join (toLowerCase sep) (map toLowerCase ls)"
  by (induction sep ls rule: join.induct) (simp_all add: toLowerCase_def)

lemma join_eq_Nil:
  assumes "\<forall>l\<in>set ls. l \<noteq> []"
  shows "join sep ls = [] \<longleftrightarrow> ls = []"
  using assms by (induction sep ls rule: join.induct) simp_all

section \<open>Numbered lines\<close>

lemma matchNumbered_shape:
  assumes "matchNumbered line"
  shows "line = takeWhile isDigit line @ CHR ''.'' # tl (dropWhile isDigit line)"
proof -
  from assms obtain rest where "dropWhile isDigit line = CHR ''.'' # rest"
    by (auto simp: matchNumbered_def split: list.splits)
  then show ?thesis
    by (metis list.sel(3) takeWhile_dropWhile_id)
qed

lemma period_not_digit: "CHR ''.'' \<notin> set (takeWhile isDigit line)"
  using set_takeWhileD by fastforce

lemma numberedButton_matchNumbered:
  assumes "matchNumbered line"
  shows "numberedButton line =
           \<lparr>display = trim (tl (dropWhile isDigit line)), value = takeWhile isDigit line\<rparr>"
proof -
  have "split CHR ''.'' line =
          takeWhile isDigit line # split CHR ''.'' (tl (dropWhile isDigit line))"
    using matchNumbered_shape [OF assms] split_prefix_without_sep [OF period_not_digit]
    by metis
  then show ?thesis
    by (simp add: numberedButton_def join_split)
qed

section \<open>The counter of the employee names\<close>

lemma numberNames_values:
  "map value (numberNames counter names) =
     map String_number [counter..<counter + length names]"
proof (induction names arbitrary: counter)
  case Nil
  show ?case by simp
next
  case (Cons name names)
  have "[counter..<counter + length (name # names)] =
          counter # [Suc counter..<Suc counter + length names]"
    by (simp add: upt_rec)
  with Cons show ?case by simp
qed

lemma numberNames_displays: "map display (numberNames counter names) = map trim names"
  by (induction names arbitrary: counter) simp_all

section \<open>Substrings\<close>

lemma includes_iff_sublist: "includes s p \<longleftrightarrow> sublist p s"
  by (induction s) (simp_all add: sublist_Cons_right)

lemma prefix_without_sep:
  assumes "prefix p (u @ sep # r)" and "sep \<notin> set p"
  shows "prefix p u"
proof -
  from assms(1) consider "prefix p u" | us where "p = u @ us" "prefix us (sep # r)"
    by (auto simp: prefix_append)
  then show ?thesis
  proof cases
    case 1
    then show ?thesis .
  next
    case 2
    with assms(2) have "us = []"
      by (cases us) auto
    with 2 show ?thesis by simp
  qed
qed

lemma sublist_across_sep:
  assumes "sublist p (x @ sep # r)" and "sep \<notin> set p"
  shows "sublist p x \<or> sublist p r"
  using assms
proof (induction x)
  case Nil
  then show ?case
    by (cases p) (auto simp: sublist_Cons_right)
next
  case (Cons a x)
  from Cons.prems(1) have "prefix p ((a # x) @ sep # r) \<or> sublist p (x @ sep # r)"
    by (simp add: sublist_Cons_right)
  then show ?case
  proof
    assume "prefix p ((a # x) @ sep # r)"
    then have "prefix p (a # x)"
      using Cons.prems(2) by (rule prefix_without_sep)
    then show ?thesis
      by (simp add: sublist_Cons_right)
  next
    assume "sublist p (x @ sep # r)"
    with Cons.IH Cons.prems(2) show ?thesis
      by (auto simp: sublist_Cons_right)
  qed
qed

lemma sublist_join_piece:
  assumes "sublist p (join [sep] ls)" and "sep \<notin> set p" and "p \<noteq> []"
  shows "\<exists>l\<in>set ls. sublist p l"
  using assms
proof (induction "[sep]" ls rule: join.induct)
  case 1
  then show ?case by simp
next
  case (2 piece)
  then show ?case by simp
next
  case (3 piece nxt pieces)
  from "3.prems"(1) have "sublist p (piece @ sep # join [sep] (nxt # pieces))"
    by simp
  then have "sublist p piece \<or> sublist p (join [sep] (nxt # pieces))"
    using "3.prems"(2) by (rule sublist_across_sep)
  with 3 show ?case by auto
qed

lemma sublist_piece_join:
  assumes "l \<in> set ls" and "sublist p l"
  shows "sublist p (join sep ls)"
  using assms
proof (induction sep ls rule: join.induct)
  case (1 sep)
  then show ?case by simp
next
  case (2 sep piece)
  then show ?case by simp
next
  case (3 sep piece nxt pieces)
  show ?case
  proof (cases "l = piece")
    case True
    with "3.prems" show ?thesis
      by (simp add: sublist_append)
  next
    case False
    with 3 have "sublist p (join sep (nxt # pieces))" by auto
    then show ?thesis
      by (simp add: sublist_append)
  qed
qed

section \<open>Blank lines\<close>

lemma toLowerChar_space: "isSpace c \<Longrightarrow> toLowerChar c = c"
  by (simp add: toLowerChar_def isUpper_def isSpace_def) arith

lemma trim_eq_Nil: "trim l = [] \<longleftrightarrow> (\<forall>c\<in>set l. isSpace c)"
proof
  assume "trim l = []"
  then have "\<forall>c\<in>set (dropWhile isSpace l). isSpace c"
    by (simp add: trim_def dropWhile_eq_Nil_conv)
  then have "dropWhile isSpace l = []"
    using hd_dropWhile [of isSpace l] hd_in_set [of "dropWhile isSpace l"] by blast
  then show "\<forall>c\<in>set l. isSpace c"
    by (simp add: dropWhile_eq_Nil_conv)
next
  assume "\<forall>c\<in>set l. isSpace c"
  then show "trim l = []"
    by (auto simp: trim_def dest: set_dropWhileD)
qed

lemma pattern_line_not_blank:
  assumes "sublist p (toLowerCase l)" and "c \<in> set p" and "\<not> isSpace c"
  shows "trim l \<noteq> []"
proof
  assume "trim l = []"
  then have "\<forall>d\<in>set l. isSpace d" by (simp add: trim_eq_Nil)
  then have "\<forall>d\<in>set (toLowerCase l). isSpace d"
    by (auto simp: toLowerCase_def toLowerChar_space)
  moreover from assms(1,2) have "c \<in> set (toLowerCase l)"
    using set_mono_sublist by blast
  ultimately show False using assms(3) by blast
qed

section \<open>A pattern of the content is a pattern of the prompt\<close>

lemma content_pattern_in_line:
  assumes "includes (toLowerCase (safeContent message)) p"
    and "CHR 0x0A \<notin> set p" and "p \<noteq> []"
  shows "\<exists>line\<in>set (lines message). includes (toLowerCase line) p"
proof -
  have "toLowerCase (safeContent message) =
          join [CHR 0x0A] (map toLowerCase (lines message))"
    using lines_join [of message, symmetric]
    by (simp add: toLowerCase_join) (simp add: toLowerCase_def)
  with assms(1) have "sublist p (join [CHR 0x0A] (map toLowerCase (lines message)))"
    by (simp add: includes_iff_sublist)
  from sublist_join_piece [OF this assms(2,3)] show ?thesis
    by (auto simp: includes_iff_sublist)
qed

lemma content_pattern_in_prompt_chat:
  assumes "options message = []" and "\<not> isEmployeeSelection message"
    and "includes (toLowerCase (safeContent message)) p"
    and "CHR 0x0A \<notin> set p" and "c \<in> set p" and "\<not> isSpace c"
  shows "includes (toLowerCase (prompt_chat message)) p"
proof -
  from assms(5) have "p \<noteq> []" by auto
  from content_pattern_in_line [OF assms(3,4) this]
  obtain line where line: "line \<in> set (lines message)" "sublist p (toLowerCase line)"
    by (auto simp: includes_iff_sublist)
  from assms(1) line(1) have "\<not> matchNumbered line"
    by (auto simp: options_def filter_empty_conv)
  moreover have "trim line \<noteq> []"
    using line(2) assms(5,6) by (rule pattern_line_not_blank)
  ultimately have "toLowerCase line \<in>
      set (map toLowerCase
             (filter (\<lambda>line. \<not> matchNumbered line \<and> trim line \<noteq> []) (lines message)))"
    using line(1) by simp
  from sublist_piece_join [OF this line(2)] show ?thesis
    using assms(2) by (simp add: prompt_chat_def toLowerCase_join includes_iff_sublist)
qed

lemma bracket_confirm: "includes text ''[confirm]'' \<Longrightarrow> includes text ''confirm''"
  unfolding includes_iff_sublist
  by (rule sublist_order.order.trans) (simp_all add: sublist_Cons_right)

lemma bracket_edit: "includes text ''[edit]'' \<Longrightarrow> includes text ''edit''"
  unfolding includes_iff_sublist
  by (rule sublist_order.order.trans) (simp_all add: sublist_Cons_right)

lemma confirmation_text_in_prompt_chat:
  assumes "spec_confirmationDetector (toLowerCase (safeContent message))"
    and "options message = []" and "\<not> isEmployeeSelection message"
  shows "isConfirmation_chat message"
proof -
  let ?text = "toLowerCase (safeContent message)"
  let ?prompt = "toLowerCase (prompt_chat message)"
  have confirm: "includes ?text ''confirm'' \<Longrightarrow> includes ?prompt ''confirm''"
    by (rule content_pattern_in_prompt_chat [OF assms(2,3), where c = "CHR ''c''"]) simp_all
  have edit: "includes ?text ''edit'' \<Longrightarrow> includes ?prompt ''edit''"
    by (rule content_pattern_in_prompt_chat [OF assms(2,3), where c = "CHR ''e''"]) simp_all
  have final: "includes ?text ''final check'' \<Longrightarrow> includes ?prompt ''final check''"
    by (rule content_pattern_in_prompt_chat [OF assms(2,3), where c = "CHR ''f''"]) simp_all
  have review: "includes ?text ''please review'' \<Longrightarrow> includes ?prompt ''please review''"
    by (rule content_pattern_in_prompt_chat [OF assms(2,3), where c = "CHR ''p''"]) simp_all
  from assms(1) show ?thesis
    unfolding spec_confirmationDetector_def isConfirmation_chat_def Let_def
    using confirm edit final review bracket_confirm bracket_edit by blast
qed

section \<open>Evaluating a message\<close>

text \<open>The tests on one line, and the fixed tables of the card.\<close>

lemmas line_tests =
  matchNumbered_def emojiLine_def startsWith_def trim_def summaryField_def toLowerCase_def
  markerGuest_def markerVendor_def markerMeeting_def

lemmas card_tables =
  CardQuestion_def buttonArea_def renderGroup_def showButtons_def cvFlowButtons_def
  adminSupportButtons_def nonEmployeeLines_def

section \<open>Properties\<close>

subsection \<open>The confirmation detector\<close>

text \<open>
  C1, as amended. For every bot message the card decides its confirmation mode from the
  full content alone: the mode is active exactly when the full lowercased content holds
  one of the three patterns of the confirmation detector, or when the message is the
  check-in summary of the admin support flow. Whenever the full lowercased content holds
  one of the three patterns, \<open>shouldShowInputField\<close> returns false.
\<close>

theorem confirmation_on_full_text:
  assumes "type message = Bot"
  shows "(isConfirmation message \<longleftrightarrow>
            spec_confirmationDetector (toLowerCase (safeContent message)) \<or>
            isAdminSupportConfirmation message) \<and>
         (spec_confirmationDetector (toLowerCase (safeContent message)) \<longrightarrow>
            shouldShowInputField (Some message) = False)"
proof
  have "includes (toLowerCase (safeContent message)) ''confirm''"
    if "includes (safeContent message) ''[confirm]''"
    using map_mono_sublist [of "''confirm''" "safeContent message" toLowerChar]
      bracket_confirm [OF that]
    by (simp add: includes_iff_sublist toLowerCase_def)
  moreover have "includes (toLowerCase (safeContent message)) ''edit''"
    if "includes (safeContent message) ''[edit]''"
    using map_mono_sublist [of "''edit''" "safeContent message" toLowerChar]
      bracket_edit [OF that]
    by (simp add: includes_iff_sublist toLowerCase_def)
  ultimately show "isConfirmation message \<longleftrightarrow>
      spec_confirmationDetector (toLowerCase (safeContent message)) \<or>
      isAdminSupportConfirmation message"
    unfolding spec_confirmationDetector_def isConfirmation_def
    using assms bracket_confirm bracket_edit by blast
next
  show "spec_confirmationDetector (toLowerCase (safeContent message)) \<longrightarrow>
          shouldShowInputField (Some message) = False"
    using confirmation_text_in_prompt_chat [of message]
    by (auto simp: shouldShowInputField_def)
qed

theorem confirmation_on_full_text_witness:
  "type \<lparr>type = Bot, content = Some ''Please confirm or edit.\<newline>Name: John'', timestamp = 0\<rparr> = Bot \<and>
   spec_confirmationDetector
     (toLowerCase
        (safeContent
           \<lparr>type = Bot, content = Some ''Please confirm or edit.\<newline>Name: John'',
            timestamp = 0\<rparr>)) \<and>
   isConfirmation
     \<lparr>type = Bot, content = Some ''Please confirm or edit.\<newline>Name: John'', timestamp = 0\<rparr> \<and>
   shouldShowInputField
     (Some \<lparr>type = Bot, content = Some ''Please confirm or edit.\<newline>Name: John'',
            timestamp = 0\<rparr>) = False"
proof -
  let ?m = "\<lparr>type = Bot, content = Some ''Please confirm or edit.\<newline>Name: John'',
             timestamp = 0\<rparr>"
  have bot: "type ?m = Bot"
    by simp
  have detected: "spec_confirmationDetector (toLowerCase (safeContent ?m))"
    by (simp add: spec_confirmationDetector_def safeContent_def toLowerCase_def)
  from confirmation_on_full_text [OF bot] detected
  have "isConfirmation ?m" and "shouldShowInputField (Some ?m) = False"
    by blast+
  with bot detected show ?thesis
    by (intro conjI)
qed

text \<open>
  The claim as it is written fails, in two ways. In the first message below no pattern
  stands in the full lowercased content, because \<open>final\<close> and \<open>check\<close> are on two lines,
  and the card is not in confirmation mode; the prompt of the input utility joins the
  lines with a space, its detector holds, and the input field is hidden although a
  keyword is present and nothing else hides it. The second message is a check-in summary
  of the admin support flow: it holds none of the three patterns, the card is in
  confirmation mode all the same, and the input field is shown.
\<close>

theorem confirmation_patterns_counterexample:
  "(\<not> spec_confirmationDetector
        (toLowerCase
           (safeContent
              \<lparr>type = Bot,
               content = Some ''Please confirm your name for the final\<newline>check-in'',
               timestamp = 0\<rparr>)) \<and>
    \<not> isConfirmation
        \<lparr>type = Bot, content = Some ''Please confirm your name for the final\<newline>check-in'',
         timestamp = 0\<rparr> \<and>
    isConfirmation_chat
      \<lparr>type = Bot, content = Some ''Please confirm your name for the final\<newline>check-in'',
       timestamp = 0\<rparr> \<and>
    fieldKeywords
      \<lparr>type = Bot, content = Some ''Please confirm your name for the final\<newline>check-in'',
       timestamp = 0\<rparr> \<and>
    length
      (options
         \<lparr>type = Bot, content = Some ''Please confirm your name for the final\<newline>check-in'',
          timestamp = 0\<rparr>) = 0 \<and>
    \<not> isEmployeeSelection
        \<lparr>type = Bot, content = Some ''Please confirm your name for the final\<newline>check-in'',
         timestamp = 0\<rparr> \<and>
    \<not> isCompletionMessage_chat
        \<lparr>type = Bot, content = Some ''Please confirm your name for the final\<newline>check-in'',
         timestamp = 0\<rparr> \<and>
    shouldShowInputField
      (Some \<lparr>type = Bot,
             content = Some ''Please confirm your name for the final\<newline>check-in'',
             timestamp = 0\<rparr>) = False) \<and>
   (\<not> spec_confirmationDetector
        (toLowerCase
           (safeContent
              \<lparr>type = Bot,
               content = Some ''Admin support team: your check-in has been recorded.\<newline>Name: Ali\<newline>CNIC: 1\<newline>Phone: 2\<newline>Host: Sara\<newline>Service: plumber'',
               timestamp = 0\<rparr>)) \<and>
    isConfirmation
      \<lparr>type = Bot,
       content = Some ''Admin support team: your check-in has been recorded.\<newline>Name: Ali\<newline>CNIC: 1\<newline>Phone: 2\<newline>Host: Sara\<newline>Service: plumber'',
       timestamp = 0\<rparr> \<and>
    shouldShowInputField
      (Some \<lparr>type = Bot,
             content = Some ''Admin support team: your check-in has been recorded.\<newline>Name: Ali\<newline>CNIC: 1\<newline>Phone: 2\<newline>Host: Sara\<newline>Service: plumber'',
             timestamp = 0\<rparr>) = True)"
proof -
  let ?m = "\<lparr>type = Bot,
             content = Some ''Please confirm your name for the final\<newline>check-in'',
             timestamp = 0\<rparr>"
  have raw: "safeContent ?m = ''Please confirm your name for the final\<newline>check-in''"
    by (simp add: safeContent_def)
  have lower:
    "toLowerCase (safeContent ?m) = ''please confirm your name for the final\<newline>check-in''"
    by (simp add: raw toLowerCase_def)
  have ls: "lines ?m = [''Please confirm your name for the final'', ''check-in'']"
    by (simp add: lines_def raw)
  have emp: "\<not> isEmployeeSelection ?m"
    by (simp add: isEmployeeSelection_def ls toLowerCase_def)
  have opts: "options ?m = []"
    by (simp add: options_def ls matchNumbered_def)
  have pr: "prompt_chat ?m = ''Please confirm your name for the final check-in''"
    by (simp add: prompt_chat_def emp ls matchNumbered_def trim_def)
  have brackets: "\<not> includes (safeContent ?m) ''[confirm]''"
    by (simp add: raw)
  have spec: "\<not> spec_confirmationDetector (toLowerCase (safeContent ?m))"
    by (simp add: spec_confirmationDetector_def lower)
  have card: "\<not> isConfirmation ?m"
    by (simp add: isConfirmation_def isAdminSupportConfirmation_def lower brackets)
  have chat: "isConfirmation_chat ?m"
    by (simp add: isConfirmation_chat_def pr toLowerCase_def)
  have keys: "fieldKeywords ?m"
    by (simp add: fieldKeywords_def lower)
  have compl: "\<not> isCompletionMessage_chat ?m"
    by (simp add: isCompletionMessage_chat_def lower)
  have hidden: "shouldShowInputField (Some ?m) = False"
    by (simp add: shouldShowInputField_def chat)
  let ?a = "\<lparr>type = Bot,
             content = Some ''Admin support team: your check-in has been recorded.\<newline>Name: Ali\<newline>CNIC: 1\<newline>Phone: 2\<newline>Host: Sara\<newline>Service: plumber'',
             timestamp = 0\<rparr>"
  have raw_a: "safeContent ?a =
      ''Admin support team: your check-in has been recorded.\<newline>Name: Ali\<newline>CNIC: 1\<newline>Phone: 2\<newline>Host: Sara\<newline>Service: plumber''"
    by (simp add: safeContent_def)
  have lower_a: "toLowerCase (safeContent ?a) =
      ''admin support team: your check-in has been recorded.\<newline>name: ali\<newline>cnic: 1\<newline>phone: 2\<newline>host: sara\<newline>service: plumber''"
    by (simp add: raw_a toLowerCase_def)
  have ls_a: "lines ?a =
      [''Admin support team: your check-in has been recorded.'', ''Name: Ali'', ''CNIC: 1'',
       ''Phone: 2'', ''Host: Sara'', ''Service: plumber'']"
    by (simp add: lines_def raw_a)
  have emp_a: "\<not> isEmployeeSelection ?a"
    by (simp add: isEmployeeSelection_def ls_a toLowerCase_def)
  have opts_a: "options ?a = []"
    by (simp add: options_def ls_a matchNumbered_def)
  have pr_a: "prompt_chat ?a =
      ''Admin support team: your check-in has been recorded. Name: Ali CNIC: 1 Phone: 2 Host: Sara Service: plumber''"
    by (simp add: prompt_chat_def emp_a ls_a matchNumbered_def trim_def)
  have spec_a: "\<not> spec_confirmationDetector (toLowerCase (safeContent ?a))"
    by (simp add: spec_confirmationDetector_def lower_a)
  have card_a: "isConfirmation ?a"
    by (simp add: isConfirmation_def isAdminSupportConfirmation_def lower_a)
  have chat_a: "\<not> isConfirmation_chat ?a"
    by (simp add: isConfirmation_chat_def pr_a toLowerCase_def)
  have keys_a: "fieldKeywords ?a"
    by (simp add: fieldKeywords_def lower_a)
  have compl_a: "\<not> isCompletionMessage_chat ?a"
    by (simp add: isCompletionMessage_chat_def lower_a)
  have shown_a: "shouldShowInputField (Some ?a) = True"
    by (simp add: shouldShowInputField_def keys_a opts_a emp_a chat_a compl_a)
  from spec card chat keys opts emp compl hidden spec_a card_a shown_a show ?thesis
    by simp
qed

subsection \<open>The groups of buttons\<close>

text \<open>
  C2, as amended. For every bot message the card renders exactly the groups of buttons
  whose own condition holds, each once, with its buttons, in the fixed order completion,
  visitor types, employee selection, numbered options, emoji options, CV flow, admin
  support, confirmation. The groups do not exclude one another, except that the numbered
  options are never rendered together with the employee selection.
\<close>

theorem buttonArea_groups:
  assumes "type message = Bot"
  shows "map fst (buttonArea message) =
           filter (groupShown message)
             [CompletionButton, VisitorTypeButtons, EmployeeSelectionButtons, NumberedOptions,
              EmojiOptions, CvFlowButtons, AdminSupportButtons, ConfirmationButtons] \<and>
         map snd (buttonArea message) =
           map (groupButtons message) (map fst (buttonArea message)) \<and>
         \<not> (groupShown message EmployeeSelectionButtons \<and> groupShown message NumberedOptions)"
proof -
  have one: "map fst (renderGroup message g) = filter (groupShown message) [g]"
    and buttons_of: "map snd (renderGroup message g) =
                      map (groupButtons message) (map fst (renderGroup message g))" for g
    by (simp_all add: renderGroup_def)
  show ?thesis
  proof (cases "showButtons message \<or> 0 < length (visitorTypeButtons message) \<or>
                0 < length (cvFlowButtons message) \<or> 0 < length (adminSupportButtons message)")
    case True
    then have "buttonArea message =
        renderGroup message CompletionButton @ renderGroup message VisitorTypeButtons @
        renderGroup message EmployeeSelectionButtons @ renderGroup message NumberedOptions @
        renderGroup message EmojiOptions @ renderGroup message CvFlowButtons @
        renderGroup message AdminSupportButtons @ renderGroup message ConfirmationButtons"
      by (simp add: buttonArea_def)
    then show ?thesis
      by (simp add: one buttons_of del: groupShown.simps groupButtons.simps) simp
  next
    case False
    with assms have "\<not> groupShown message g" for g
      by (cases g) (simp_all add: showButtons_def)
    with False show ?thesis
      by (simp add: buttonArea_def del: groupShown.simps)
  qed
qed

theorem buttonArea_groups_witness:
  "type \<lparr>type = Bot, content = Some ''Please confirm or edit.\<newline>1. Yes'', timestamp = 0\<rparr> = Bot \<and>
   map fst
     (buttonArea
        \<lparr>type = Bot, content = Some ''Please confirm or edit.\<newline>1. Yes'', timestamp = 0\<rparr>) =
   filter
     (groupShown
        \<lparr>type = Bot, content = Some ''Please confirm or edit.\<newline>1. Yes'', timestamp = 0\<rparr>)
     [CompletionButton, VisitorTypeButtons, EmployeeSelectionButtons, NumberedOptions,
      EmojiOptions, CvFlowButtons, AdminSupportButtons, ConfirmationButtons]"
proof -
  let ?m = "\<lparr>type = Bot, content = Some ''Please confirm or edit.\<newline>1. Yes'', timestamp = 0\<rparr>"
  have bot: "type ?m = Bot"
    by simp
  from bot buttonArea_groups [OF bot] show ?thesis
    by (intro conjI) (rule bot, blast)
qed

text \<open>
  The claim as it is written fails: one message can activate two groups. The message
  below holds the completion phrase and a numbered line, and the card renders the button
  of the completion and, after it, the numbered option.
\<close>

theorem exclusive_groups_counterexample:
  "buttonArea
     \<lparr>type = Bot, content = Some ''Registration is complete.\<newline>1. Again'', timestamp = 0\<rparr> =
   [(CompletionButton, [\<lparr>display = ''Start New Registration'', value = ''new''\<rparr>]),
    (NumberedOptions, [\<lparr>display = ''Again'', value = ''1''\<rparr>])]"
proof -
  let ?m = "\<lparr>type = Bot, content = Some ''Registration is complete.\<newline>1. Again'',
             timestamp = 0\<rparr>"
  have raw: "safeContent ?m = ''Registration is complete.\<newline>1. Again''"
    by (simp add: safeContent_def)
  have lower: "toLowerCase (safeContent ?m) = ''registration is complete.\<newline>1. again''"
    by (simp add: raw toLowerCase_def)
  have ls: "lines ?m = [''Registration is complete.'', ''1. Again'']"
    by (simp add: lines_def raw)
  have emp: "\<not> isEmployeeSelection ?m"
    by (simp add: isEmployeeSelection_def ls toLowerCase_def)
  have opts: "options ?m = [''1. Again'']"
    by (simp add: options_def ls matchNumbered_def)
  have emoji: "emojiOptions ?m = []"
    by (simp add: emojiOptions_def ls line_tests)
  have compl: "isCompletionMessage ?m"
    by (simp add: isCompletionMessage_def lower)
  have brackets: "\<not> includes (safeContent ?m) ''[confirm]''"
    by (simp add: raw)
  have conf: "\<not> isConfirmation ?m"
    by (simp add: isConfirmation_def isAdminSupportConfirmation_def lower brackets)
  have pr: "prompt ?m = ''Registration is complete.''"
    by (simp add: prompt_def promptLines_def emp conf ls line_tests)
  have vis: "visitorTypeButtons ?m = []"
    by (simp add: visitorTypeButtons_def isIntroGreeting_def pr trim_def greeting_def)
  have cv: "\<not> cvPrompt ?m"
    by (simp add: cvPrompt_def pr toLowerCase_def)
  have adm: "\<not> adminSupportPrompt ?m"
    by (simp add: adminSupportPrompt_def pr toLowerCase_def)
  have button: "numberedButton ''1. Again'' = \<lparr>display = ''Again'', value = ''1''\<rparr>"
    by (simp add: numberedButton_def trim_def)
  show ?thesis
    by (simp add: card_tables emp opts emoji compl conf vis cv adm button)
qed

subsection \<open>The prompt\<close>

text \<open>
  C3, as amended. The prompt of the card is the first line when the message is an employee
  selection, and otherwise the lines that are no numbered option, no emoji option, no
  summary line of a confirmation and not blank, joined with single spaces. There is no
  fallback: the prompt is empty exactly when the message is no employee selection and no
  line is left.
\<close>

theorem prompt_composition:
  "prompt message =
     (if isEmployeeSelection message then hd (lines message)
      else join '' '' (promptLines message)) \<and>
   (prompt message = [] \<longleftrightarrow>
      \<not> isEmployeeSelection message \<and> promptLines message = [])"
proof -
  obtain line0 rest where ls: "lines message = line0 # rest"
    by (cases "lines message") simp_all
  have shape: "prompt message =
     (if isEmployeeSelection message then hd (lines message)
      else join '' '' (promptLines message))"
    by (simp add: prompt_def ls)
  have "line0 \<noteq> []" if "isEmployeeSelection message"
    using that by (auto simp: isEmployeeSelection_def ls toLowerCase_def)
  moreover have "\<forall>line\<in>set (promptLines message). line \<noteq> []"
    by (auto simp: promptLines_def trim_def)
  then have "join '' '' (promptLines message) = [] \<longleftrightarrow> promptLines message = []"
    by (rule join_eq_Nil)
  ultimately show ?thesis
    using shape by (auto simp: ls)
qed

text \<open>
  The claim as it is written fails: the message below is not empty, its only line is a
  numbered option, and the prompt is the empty string, not the first line.
\<close>

theorem empty_prompt_counterexample:
  "lines \<lparr>type = Bot, content = Some ''1. Apple'', timestamp = 0\<rparr> = [''1. Apple''] \<and>
   prompt \<lparr>type = Bot, content = Some ''1. Apple'', timestamp = 0\<rparr> = []"
proof -
  let ?m = "\<lparr>type = Bot, content = Some ''1. Apple'', timestamp = 0\<rparr>"
  have ls: "lines ?m = [''1. Apple'']"
    by (simp add: lines_def safeContent_def)
  have emp: "\<not> isEmployeeSelection ?m"
    by (simp add: isEmployeeSelection_def ls toLowerCase_def)
  have "prompt ?m = []"
    by (simp add: prompt_def promptLines_def emp ls matchNumbered_def)
  with ls show ?thesis
    by simp
qed

subsection \<open>Completion\<close>

text \<open>
  C4, as amended. A bot message whose lowercased content holds \<open>registration is complete\<close>
  is a completion message, whatever else it holds: the buttons of the card begin with the
  button that restarts with the value \<open>new\<close>, and the input field is not shown. The
  completion does not displace the other groups: each of them follows the button when its
  own condition holds.
\<close>

theorem completion_phrase:
  assumes "type message = Bot"
    and "includes (toLowerCase (safeContent message)) ''registration is complete''"
  shows "isCompletionMessage message \<and>
         buttonArea message =
           (CompletionButton, [\<lparr>display = ''Start New Registration'', value = ''new''\<rparr>]) #
           (renderGroup message VisitorTypeButtons @
            renderGroup message EmployeeSelectionButtons @
            renderGroup message NumberedOptions @
            renderGroup message EmojiOptions @
            renderGroup message CvFlowButtons @
            renderGroup message AdminSupportButtons @
            renderGroup message ConfirmationButtons) \<and>
         shouldShowInputField (Some message) = False"
proof -
  from assms have compl: "isCompletionMessage message"
    by (simp add: isCompletionMessage_def)
  then have "showButtons message"
    using assms(1) by (simp add: showButtons_def)
  then have "buttonArea message =
      renderGroup message CompletionButton @ renderGroup message VisitorTypeButtons @
      renderGroup message EmployeeSelectionButtons @ renderGroup message NumberedOptions @
      renderGroup message EmojiOptions @ renderGroup message CvFlowButtons @
      renderGroup message AdminSupportButtons @ renderGroup message ConfirmationButtons"
    by (simp add: buttonArea_def)
  moreover from compl have "renderGroup message CompletionButton =
      [(CompletionButton, [\<lparr>display = ''Start New Registration'', value = ''new''\<rparr>])]"
    by (simp add: renderGroup_def)
  moreover from assms(2) have "shouldShowInputField (Some message) = False"
    by (simp add: shouldShowInputField_def isCompletionMessage_chat_def)
  ultimately show ?thesis
    using compl by simp
qed

theorem completion_phrase_witness:
  "type \<lparr>type = Bot, content = Some ''Your REGISTRATION IS COMPLETE. Enter a name'',
         timestamp = 0\<rparr> = Bot \<and>
   includes
     (toLowerCase
        (safeContent
           \<lparr>type = Bot, content = Some ''Your REGISTRATION IS COMPLETE. Enter a name'',
            timestamp = 0\<rparr>))
     ''registration is complete'' \<and>
   isCompletionMessage
     \<lparr>type = Bot, content = Some ''Your REGISTRATION IS COMPLETE. Enter a name'',
      timestamp = 0\<rparr> \<and>
   shouldShowInputField
     (Some \<lparr>type = Bot, content = Some ''Your REGISTRATION IS COMPLETE. Enter a name'',
            timestamp = 0\<rparr>) = False"
proof -
  let ?m = "\<lparr>type = Bot, content = Some ''Your REGISTRATION IS COMPLETE. Enter a name'',
             timestamp = 0\<rparr>"
  have bot: "type ?m = Bot"
    by simp
  have phrase: "includes (toLowerCase (safeContent ?m)) ''registration is complete''"
    by (simp add: safeContent_def toLowerCase_def)
  from completion_phrase [OF bot phrase]
  have "isCompletionMessage ?m" and "shouldShowInputField (Some ?m) = False"
    by blast+
  with bot phrase show ?thesis
    by (intro conjI)
qed

text \<open>
  The claim as it is written fails: the completion is not the one thing the card resolves
  to. The message below holds the completion phrase in a line that begins with a digit and
  a period and also holds the words \<open>confirm\<close> and \<open>edit\<close>; the card renders the button of
  the completion, then the line as a numbered option, then the pair of confirmation
  buttons, and its prompt is empty.
\<close>

theorem completion_alone_counterexample:
  "CardQuestion
     \<lparr>type = Bot, content = Some ''1. Registration is COMPLETE, confirm or edit'',
      timestamp = 0\<rparr> True =
   Some \<lparr>heading = Some [],
         summaryBlock = [],
         buttons =
           [(CompletionButton, [\<lparr>display = ''Start New Registration'', value = ''new''\<rparr>]),
            (NumberedOptions,
             [\<lparr>display = ''Registration is COMPLETE, confirm or edit'', value = ''1''\<rparr>]),
            (ConfirmationButtons,
             [\<lparr>display = ''Confirm'', value = ''confirm''\<rparr>,
              \<lparr>display = ''Edit'', value = ''edit''\<rparr>])]\<rparr>"
proof -
  let ?m = "\<lparr>type = Bot, content = Some ''1. Registration is COMPLETE, confirm or edit'',
             timestamp = 0\<rparr>"
  have raw: "safeContent ?m = ''1. Registration is COMPLETE, confirm or edit''"
    by (simp add: safeContent_def)
  have lower: "toLowerCase (safeContent ?m) = ''1. registration is complete, confirm or edit''"
    by (simp add: raw toLowerCase_def)
  have ls: "lines ?m = [''1. Registration is COMPLETE, confirm or edit'']"
    by (simp add: lines_def raw)
  have emp: "\<not> isEmployeeSelection ?m"
    by (simp add: isEmployeeSelection_def ls toLowerCase_def)
  have opts: "options ?m = [''1. Registration is COMPLETE, confirm or edit'']"
    by (simp add: options_def ls matchNumbered_def)
  have emoji: "emojiOptions ?m = []"
    by (simp add: emojiOptions_def ls line_tests)
  have compl: "isCompletionMessage ?m"
    by (simp add: isCompletionMessage_def lower)
  have conf: "isConfirmation ?m"
    by (simp add: isConfirmation_def lower)
  have summary: "summaryInfo ?m = []"
    by (simp add: summaryInfo_def conf ls summaryField_def toLowerCase_def)
  have pr: "prompt ?m = []"
    by (simp add: prompt_def promptLines_def emp ls matchNumbered_def)
  have vis: "visitorTypeButtons ?m = []"
    by (simp add: visitorTypeButtons_def isIntroGreeting_def pr trim_def greeting_def)
  have cv: "\<not> cvPrompt ?m"
    by (simp add: cvPrompt_def pr toLowerCase_def)
  have adm: "\<not> adminSupportPrompt ?m"
    by (simp add: adminSupportPrompt_def pr toLowerCase_def)
  have button: "numberedButton ''1. Registration is COMPLETE, confirm or edit'' =
      \<lparr>display = ''Registration is COMPLETE, confirm or edit'', value = ''1''\<rparr>"
    by (simp add: numberedButton_def trim_def)
  show ?thesis
    by (simp add: card_tables emp opts emoji compl conf summary pr vis cv adm button)
qed

subsection \<open>The examples of the card\<close>

text \<open>
  C5. For the bot message \<open>We found 2 matches:\<close>, \<open>John Smith\<close>, \<open>Jane Doe\<close> the card shows the
  first line as its prompt and one group, the employee selection: the two names with the
  values \<open>1\<close> and \<open>2\<close> of the running counter, in the order of the lines, and after them
  the one option \<open>None of these / Enter a different name\<close> with the value \<open>0\<close>. In general
  the counter gives the names the values 1, 2 and so on in their order, and each name is
  shown trimmed.
\<close>

theorem employee_match_example:
  "CardQuestion
     \<lparr>type = Bot, content = Some ''We found 2 matches:\<newline>John Smith\<newline>Jane Doe'',
      timestamp = t\<rparr> True =
   Some \<lparr>heading = Some ''We found 2 matches:'',
         summaryBlock = [],
         buttons =
           [(EmployeeSelectionButtons,
             [\<lparr>display = ''John Smith'', value = ''1''\<rparr>,
              \<lparr>display = ''Jane Doe'', value = ''2''\<rparr>,
              \<lparr>display = ''None of these / Enter a different name'', value = ''0''\<rparr>])]\<rparr> \<and>
   (\<forall>names.
      map value (numberNames 1 names) = map String_number [1..<Suc (length names)] \<and>
      map display (numberNames 1 names) = map trim names)"
proof -
  let ?m = "\<lparr>type = Bot, content = Some ''We found 2 matches:\<newline>John Smith\<newline>Jane Doe'',
             timestamp = t\<rparr>"
  have raw: "safeContent ?m = ''We found 2 matches:\<newline>John Smith\<newline>Jane Doe''"
    by (simp add: safeContent_def)
  have lower: "toLowerCase (safeContent ?m) = ''we found 2 matches:\<newline>john smith\<newline>jane doe''"
    by (simp add: raw toLowerCase_def)
  have ls: "lines ?m = [''We found 2 matches:'', ''John Smith'', ''Jane Doe'']"
    by (simp add: lines_def raw)
  have emp: "isEmployeeSelection ?m"
    by (simp add: isEmployeeSelection_def ls toLowerCase_def)
  have opts: "options ?m = []"
    by (simp add: options_def ls matchNumbered_def)
  have emoji: "emojiOptions ?m = []"
    by (simp add: emojiOptions_def ls line_tests)
  have compl: "\<not> isCompletionMessage ?m"
    by (simp add: isCompletionMessage_def lower)
  have brackets: "\<not> includes (safeContent ?m) ''[confirm]''"
    by (simp add: raw)
  have conf: "\<not> isConfirmation ?m"
    by (simp add: isConfirmation_def isAdminSupportConfirmation_def lower brackets)
  have pr: "prompt ?m = ''We found 2 matches:''"
    by (simp add: prompt_def emp ls)
  have vis: "visitorTypeButtons ?m = []"
    by (simp add: visitorTypeButtons_def isIntroGreeting_def pr trim_def greeting_def)
  have cv: "\<not> cvPrompt ?m"
    by (simp add: cvPrompt_def pr toLowerCase_def)
  have adm: "\<not> adminSupportPrompt ?m"
    by (simp add: adminSupportPrompt_def pr toLowerCase_def)
  have names: "employeeNames ?m =
      [\<lparr>display = ''John Smith'', value = ''1''\<rparr>, \<lparr>display = ''Jane Doe'', value = ''2''\<rparr>]"
    by (simp add: employeeNames_def emp ls toLowerCase_def trim_def String_number.simps)
  have "CardQuestion ?m True =
      Some \<lparr>heading = Some ''We found 2 matches:'',
            summaryBlock = [],
            buttons =
              [(EmployeeSelectionButtons,
                [\<lparr>display = ''John Smith'', value = ''1''\<rparr>,
                 \<lparr>display = ''Jane Doe'', value = ''2''\<rparr>,
                 \<lparr>display = ''None of these / Enter a different name'', value = ''0''\<rparr>])]\<rparr>"
    by (simp add: card_tables summaryInfo_def emp opts emoji compl conf pr vis cv adm names)
  then show ?thesis
    using numberNames_values [of 1] numberNames_displays [of 1] by simp
qed

text \<open>
  C6. For the bot message \<open>Please confirm or edit.\<close>, \<open>Name: John\<close>, \<open>Phone: 12345\<close> the card
  is a confirmation: the summary is the two field lines in their order, the only group is
  the pair of buttons with the values \<open>confirm\<close> and \<open>edit\<close>, and no line is a numbered
  option, because \<open>Phone: 12345\<close> does not begin with digits and a period.
\<close>

theorem confirmation_example:
  "CardQuestion
     \<lparr>type = Bot, content = Some ''Please confirm or edit.\<newline>Name: John\<newline>Phone: 12345'',
      timestamp = t\<rparr> True =
   Some \<lparr>heading = Some ''Please confirm or edit.'',
         summaryBlock = [''Name: John'', ''Phone: 12345''],
         buttons =
           [(ConfirmationButtons,
             [\<lparr>display = ''Confirm'', value = ''confirm''\<rparr>,
              \<lparr>display = ''Edit'', value = ''edit''\<rparr>])]\<rparr> \<and>
   options
     \<lparr>type = Bot, content = Some ''Please confirm or edit.\<newline>Name: John\<newline>Phone: 12345'',
      timestamp = t\<rparr> = [] \<and>
   matchNumbered ''Phone: 12345'' = False"
proof -
  let ?m = "\<lparr>type = Bot,
             content = Some ''Please confirm or edit.\<newline>Name: John\<newline>Phone: 12345'',
             timestamp = t\<rparr>"
  have raw: "safeContent ?m = ''Please confirm or edit.\<newline>Name: John\<newline>Phone: 12345''"
    by (simp add: safeContent_def)
  have lower:
    "toLowerCase (safeContent ?m) = ''please confirm or edit.\<newline>name: john\<newline>phone: 12345''"
    by (simp add: raw toLowerCase_def)
  have ls: "lines ?m = [''Please confirm or edit.'', ''Name: John'', ''Phone: 12345'']"
    by (simp add: lines_def raw)
  have emp: "\<not> isEmployeeSelection ?m"
    by (simp add: isEmployeeSelection_def ls toLowerCase_def)
  have phone: "matchNumbered ''Phone: 12345'' = False"
    by (simp add: matchNumbered_def)
  have opts: "options ?m = []"
    by (simp add: options_def ls matchNumbered_def)
  have emoji: "emojiOptions ?m = []"
    by (simp add: emojiOptions_def ls line_tests)
  have compl: "\<not> isCompletionMessage ?m"
    by (simp add: isCompletionMessage_def lower)
  have conf: "isConfirmation ?m"
    by (simp add: isConfirmation_def lower)
  have summary: "summaryInfo ?m = [''Name: John'', ''Phone: 12345'']"
    by (simp add: summaryInfo_def conf ls summaryField_def toLowerCase_def)
  have pr: "prompt ?m = ''Please confirm or edit.''"
    by (simp add: prompt_def promptLines_def emp conf ls line_tests)
  have vis: "visitorTypeButtons ?m = []"
    by (simp add: visitorTypeButtons_def isIntroGreeting_def pr trim_def greeting_def)
  have cv: "\<not> cvPrompt ?m"
    by (simp add: cvPrompt_def pr toLowerCase_def)
  have adm: "\<not> adminSupportPrompt ?m"
    by (simp add: adminSupportPrompt_def pr toLowerCase_def)
  have "CardQuestion ?m True =
      Some \<lparr>heading = Some ''Please confirm or edit.'',
            summaryBlock = [''Name: John'', ''Phone: 12345''],
            buttons =
              [(ConfirmationButtons,
                [\<lparr>display = ''Confirm'', value = ''confirm''\<rparr>,
                 \<lparr>display = ''Edit'', value = ''edit''\<rparr>])]\<rparr>"
    by (simp add: card_tables emp opts emoji compl conf summary pr vis cv adm)
  with opts phone show ?thesis
    by simp
qed

text \<open>
  C7. For the bot message \<open>Pick one:\<close>, \<open>1. Apple\<close>, \<open>2. Banana\<close> the card shows the prompt
  \<open>Pick one:\<close> and one group, the numbered options \<open>Apple\<close> with the value \<open>1\<close> and
  \<open>Banana\<close> with the value \<open>2\<close>. In general the button of a line that begins with digits
  and a period sends the leading digits and shows the rest of the line after the first
  period, trimmed.
\<close>

theorem numbered_menu_example:
  "CardQuestion
     \<lparr>type = Bot, content = Some ''Pick one:\<newline>1. Apple\<newline>2. Banana'', timestamp = t\<rparr> True =
   Some \<lparr>heading = Some ''Pick one:'',
         summaryBlock = [],
         buttons =
           [(NumberedOptions,
             [\<lparr>display = ''Apple'', value = ''1''\<rparr>,
              \<lparr>display = ''Banana'', value = ''2''\<rparr>])]\<rparr> \<and>
   (\<forall>line. matchNumbered line \<longrightarrow>
      numberedButton line =
        \<lparr>display = trim (tl (dropWhile isDigit line)), value = takeWhile isDigit line\<rparr>)"
proof -
  let ?m = "\<lparr>type = Bot, content = Some ''Pick one:\<newline>1. Apple\<newline>2. Banana'',
             timestamp = t\<rparr>"
  have raw: "safeContent ?m = ''Pick one:\<newline>1. Apple\<newline>2. Banana''"
    by (simp add: safeContent_def)
  have lower: "toLowerCase (safeContent ?m) = ''pick one:\<newline>1. apple\<newline>2. banana''"
    by (simp add: raw toLowerCase_def)
  have ls: "lines ?m = [''Pick one:'', ''1. Apple'', ''2. Banana'']"
    by (simp add: lines_def raw)
  have emp: "\<not> isEmployeeSelection ?m"
    by (simp add: isEmployeeSelection_def ls toLowerCase_def)
  have opts: "options ?m = [''1. Apple'', ''2. Banana'']"
    by (simp add: options_def ls matchNumbered_def)
  have emoji: "emojiOptions ?m = []"
    by (simp add: emojiOptions_def ls line_tests)
  have compl: "\<not> isCompletionMessage ?m"
    by (simp add: isCompletionMessage_def lower)
  have brackets: "\<not> includes (safeContent ?m) ''[confirm]''"
    by (simp add: raw)
  have conf: "\<not> isConfirmation ?m"
    by (simp add: isConfirmation_def isAdminSupportConfirmation_def lower brackets)
  have pr: "prompt ?m = ''Pick one:''"
    by (simp add: prompt_def promptLines_def emp conf ls line_tests)
  have vis: "visitorTypeButtons ?m = []"
    by (simp add: visitorTypeButtons_def isIntroGreeting_def pr trim_def greeting_def)
  have cv: "\<not> cvPrompt ?m"
    by (simp add: cvPrompt_def pr toLowerCase_def)
  have adm: "\<not> adminSupportPrompt ?m"
    by (simp add: adminSupportPrompt_def pr toLowerCase_def)
  have apple: "numberedButton ''1. Apple'' = \<lparr>display = ''Apple'', value = ''1''\<rparr>"
    and banana: "numberedButton ''2. Banana'' = \<lparr>display = ''Banana'', value = ''2''\<rparr>"
    by (simp_all add: numberedButton_def trim_def)
  have "CardQuestion ?m True =
      Some \<lparr>heading = Some ''Pick one:'',
            summaryBlock = [],
            buttons =
              [(NumberedOptions,
                [\<lparr>display = ''Apple'', value = ''1''\<rparr>,
                 \<lparr>display = ''Banana'', value = ''2''\<rparr>])]\<rparr>"
    by (simp add: card_tables summaryInfo_def emp opts emoji compl conf pr vis cv adm
        apple banana)
  then show ?thesis
    using numberedButton_matchNumbered by blast
qed

theorem numbered_menu_example_witness:
  "matchNumbered ''12. Save. Then quit'' \<and>
   numberedButton ''12. Save. Then quit'' = \<lparr>display = ''Save. Then quit'', value = ''12''\<rparr>"
proof -
  have numbered: "matchNumbered ''12. Save. Then quit''"
    by (simp add: matchNumbered_def)
  from numbered_menu_example [of 0] numbered
  have "numberedButton ''12. Save. Then quit'' =
          \<lparr>display = trim (tl (dropWhile isDigit ''12. Save. Then quit'')),
           value = takeWhile isDigit ''12. Save. Then quit''\<rparr>"
    by blast
  with numbered show ?thesis
    by (simp add: trim_def)
qed

subsection \<open>The input field\<close>

text \<open>
  C8. For the bot message \<open>Please enter your phone number\<close> the input field is shown and the
  card has no button; with the further line \<open>1. Skip\<close> the input field is not shown and
  the card shows the numbered option. In general \<open>shouldShowInputField\<close> returns false
  whenever the function finds a numbered option, an employee selection, a confirmation or
  a completion.
\<close>

theorem free_text_gating:
  "shouldShowInputField
     (Some \<lparr>type = Bot, content = Some ''Please enter your phone number'', timestamp = t\<rparr>) = True \<and>
   buttonArea \<lparr>type = Bot, content = Some ''Please enter your phone number'', timestamp = t\<rparr> = [] \<and>
   shouldShowInputField
     (Some \<lparr>type = Bot, content = Some ''Please enter your phone number\<newline>1. Skip'',
            timestamp = t\<rparr>) = False \<and>
   options
     \<lparr>type = Bot, content = Some ''Please enter your phone number\<newline>1. Skip'',
      timestamp = t\<rparr> = [''1. Skip''] \<and>
   (\<forall>message.
      0 < length (options message) \<or> isEmployeeSelection message \<or>
      isConfirmation_chat message \<or> isCompletionMessage_chat message \<longrightarrow>
      shouldShowInputField (Some message) = False)"
proof -
  let ?a = "\<lparr>type = Bot, content = Some ''Please enter your phone number'', timestamp = t\<rparr>"
  let ?b = "\<lparr>type = Bot, content = Some ''Please enter your phone number\<newline>1. Skip'',
             timestamp = t\<rparr>"
  have raw: "safeContent ?a = ''Please enter your phone number''"
    by (simp add: safeContent_def)
  have lower: "toLowerCase (safeContent ?a) = ''please enter your phone number''"
    by (simp add: raw toLowerCase_def)
  have ls: "lines ?a = [''Please enter your phone number'']"
    by (simp add: lines_def raw)
  have emp: "\<not> isEmployeeSelection ?a"
    by (simp add: isEmployeeSelection_def ls toLowerCase_def)
  have opts: "options ?a = []"
    by (simp add: options_def ls matchNumbered_def)
  have pr_chat: "prompt_chat ?a = ''Please enter your phone number''"
    by (simp add: prompt_chat_def emp ls matchNumbered_def trim_def)
  have conf_chat: "\<not> isConfirmation_chat ?a"
    by (simp add: isConfirmation_chat_def pr_chat toLowerCase_def)
  have compl_chat: "\<not> isCompletionMessage_chat ?a"
    by (simp add: isCompletionMessage_chat_def lower)
  have keys: "fieldKeywords ?a"
    by (simp add: fieldKeywords_def lower)
  have shown: "shouldShowInputField (Some ?a) = True"
    by (simp add: shouldShowInputField_def keys opts emp conf_chat compl_chat)
  have emoji: "emojiOptions ?a = []"
    by (simp add: emojiOptions_def ls line_tests)
  have compl: "\<not> isCompletionMessage ?a"
    by (simp add: isCompletionMessage_def lower)
  have brackets: "\<not> includes (safeContent ?a) ''[confirm]''"
    by (simp add: raw)
  have conf: "\<not> isConfirmation ?a"
    by (simp add: isConfirmation_def isAdminSupportConfirmation_def lower brackets)
  have pr: "prompt ?a = ''Please enter your phone number''"
    by (simp add: prompt_def promptLines_def emp conf ls line_tests)
  have vis: "visitorTypeButtons ?a = []"
    by (simp add: visitorTypeButtons_def isIntroGreeting_def pr trim_def greeting_def)
  have cv: "\<not> cvPrompt ?a"
    by (simp add: cvPrompt_def pr toLowerCase_def)
  have adm: "\<not> adminSupportPrompt ?a"
    by (simp add: adminSupportPrompt_def pr toLowerCase_def)
  have no_buttons: "buttonArea ?a = []"
    by (simp add: card_tables emp opts emoji compl conf vis cv adm)
  have skip: "options ?b = [''1. Skip'']"
    by (simp add: options_def lines_def safeContent_def matchNumbered_def)
  then have hidden: "shouldShowInputField (Some ?b) = False"
    by (simp add: shouldShowInputField_def)
  have "shouldShowInputField (Some message) = False"
    if "0 < length (options message) \<or> isEmployeeSelection message \<or>
        isConfirmation_chat message \<or> isCompletionMessage_chat message" for message
    using that by (auto simp: shouldShowInputField_def)
  with shown no_buttons hidden skip show ?thesis
    by blast
qed

theorem free_text_gating_witness:
  "0 < length
         (options
            \<lparr>type = Bot, content = Some ''Please enter your phone number\<newline>1. Skip'',
             timestamp = 0\<rparr>) \<and>
   shouldShowInputField
     (Some \<lparr>type = Bot, content = Some ''Please enter your phone number\<newline>1. Skip'',
            timestamp = 0\<rparr>) = False"
proof -
  let ?b = "\<lparr>type = Bot, content = Some ''Please enter your phone number\<newline>1. Skip'',
             timestamp = 0\<rparr>"
  from free_text_gating [of 0] have skip: "options ?b = [''1. Skip'']"
    and general: "0 < length (options ?b) \<longrightarrow> shouldShowInputField (Some ?b) = False"
    by blast+
  from skip have "0 < length (options ?b)"
    by simp
  with general show ?thesis
    by blast
qed

text \<open>
  C9. A body that is missing or not a string is read as the empty string. For such a
  message and for the empty string the card has an empty prompt, no summary and no
  button, and the input field is not shown; a message that is missing altogether shows no
  input field either. Nothing in the card can fail: the lines of a message are never
  empty, so the first line is always there to be read, and every message has a card.
\<close>

theorem degenerate_input:
  "safeContent \<lparr>type = ty, content = None, timestamp = t\<rparr> = [] \<and>
   CardQuestion \<lparr>type = ty, content = None, timestamp = t\<rparr> True =
     Some \<lparr>heading = Some [], summaryBlock = [], buttons = []\<rparr> \<and>
   CardQuestion \<lparr>type = ty, content = Some [], timestamp = t\<rparr> True =
     Some \<lparr>heading = Some [], summaryBlock = [], buttons = []\<rparr> \<and>
   shouldShowInputField (Some \<lparr>type = ty, content = None, timestamp = t\<rparr>) = False \<and>
   shouldShowInputField (Some \<lparr>type = ty, content = Some [], timestamp = t\<rparr>) = False \<and>
   shouldShowInputField None = False \<and>
   lines message \<noteq> [] \<and>
   (\<exists>card. CardQuestion message True = Some card)"
proof -
  have card: "CardQuestion m True = Some \<lparr>heading = Some [], summaryBlock = [], buttons = []\<rparr>"
    and field: "shouldShowInputField (Some m) = False"
    if empty: "safeContent m = []" for m
  proof -
    have ls: "lines m = [[]]"
      by (simp add: lines_def empty)
    have emp: "\<not> isEmployeeSelection m"
      by (simp add: isEmployeeSelection_def ls toLowerCase_def)
    have opts: "options m = []"
      by (simp add: options_def ls matchNumbered_def)
    have emoji: "emojiOptions m = []"
      by (simp add: emojiOptions_def ls line_tests)
    have compl: "\<not> isCompletionMessage m"
      by (simp add: isCompletionMessage_def empty toLowerCase_def)
    have conf: "\<not> isConfirmation m"
      by (simp add: isConfirmation_def isAdminSupportConfirmation_def empty toLowerCase_def)
    have pr: "prompt m = []"
      by (simp add: prompt_def promptLines_def emp ls trim_def)
    have vis: "visitorTypeButtons m = []"
      by (simp add: visitorTypeButtons_def isIntroGreeting_def pr trim_def greeting_def)
    have cv: "\<not> cvPrompt m"
      by (simp add: cvPrompt_def pr toLowerCase_def)
    have adm: "\<not> adminSupportPrompt m"
      by (simp add: adminSupportPrompt_def pr toLowerCase_def)
    show "CardQuestion m True = Some \<lparr>heading = Some [], summaryBlock = [], buttons = []\<rparr>"
      by (simp add: card_tables summaryInfo_def emp opts emoji compl conf pr vis cv adm)
    show "shouldShowInputField (Some m) = False"
      by (simp add: shouldShowInputField_def fieldKeywords_def empty toLowerCase_def)
  qed
  have none: "safeContent \<lparr>type = ty, content = None, timestamp = t\<rparr> = []"
    and string: "safeContent \<lparr>type = ty, content = Some [], timestamp = t\<rparr> = []"
    by (simp_all add: safeContent_def)
  have "shouldShowInputField None = False"
    by (simp add: shouldShowInputField_def)
  moreover have "\<exists>card. CardQuestion message True = Some card"
    by (simp add: CardQuestion_def)
  ultimately show ?thesis
    using none card [OF none] card [OF string] field [OF none] field [OF string]
    by simp
qed

text \<open>
  C10. A message whose speaker is not the bot never shows the input field, whatever its
  content is.
\<close>

theorem shouldShowInputField_not_bot:
  "type message \<noteq> Bot \<Longrightarrow> shouldShowInputField (Some message) = False"
  by (simp add: shouldShowInputField_def)

theorem shouldShowInputField_not_bot_witness:
  "type \<lparr>type = User, content = Some ''Please enter your phone number'', timestamp = 0\<rparr> \<noteq> Bot \<and>
   shouldShowInputField
     (Some \<lparr>type = User, content = Some ''Please enter your phone number'', timestamp = 0\<rparr>) = False"
  using shouldShowInputField_not_bot
    [of "\<lparr>type = User, content = Some ''Please enter your phone number'', timestamp = 0\<rparr>"]
  by simp

end
